theory Spec2Isabelle
  imports Main "HOL-Library.Multiset"
begin

section \<open>Cards and the deck (cardgames.py, classes Card and Deck)\<close>

text \<open>
  \<^verbatim>\<open>Card.__init__\<close> accepts exactly the suits of \<^verbatim>\<open>Card.SUITS\<close> and the ranks of
  \<^verbatim>\<open>Card.RANKS\<close> and raises otherwise, so a card object is a pair of one of four suits
  and one of thirteen ranks. The class defines no \<^verbatim>\<open>__eq__\<close>: Python compares cards by
  identity. Every card of a game is created once, by \<^verbatim>\<open>Deck.__init__\<close>, one object per
  (suit, rank), so identity of cards of one deck is equality of the pairs.
\<close>

datatype suit = Hearts | Spades | Diamonds | Clubs

datatype rank = Two | Three | Four | Five | Six | Seven | Eight | Nine | Ten
  | Jack | Queen | King | Ace

datatype card = Card (suit: suit) (rank: rank)

datatype error = ValueError | EOFError | TypeError | IndexError

definition SUITS :: "suit list" where
  "SUITS = [Hearts, Spades, Diamonds, Clubs]"

definition RANKS :: "rank list" where
  "RANKS = [Two, Three, Four, Five, Six, Seven, Eight, Nine, Ten, Jack, Queen, King, Ace]"

text \<open>\<^verbatim>\<open>tuple.index\<close>: the position of the first occurrence.\<close>

fun index_of :: "'a \<Rightarrow> 'a list \<Rightarrow> nat" where
  "index_of x [] = 0"
| "index_of x (y # ys) = (if x = y then 0 else Suc (index_of x ys))"

definition rank_index :: "rank \<Rightarrow> nat" where
  "rank_index r = index_of r RANKS"

record deck =
  cards :: "card list"

definition Deck_init :: deck where
  "Deck_init = \<lparr>cards = concat (map (\<lambda>s. map (\<lambda>r. Card s r) RANKS) SUITS)\<rparr>"

text \<open>
  \<^verbatim>\<open>draw_card\<close> raises before it changes the deck; the deck after the call is returned
  beside the result, so that an error leaves it as it was.
\<close>

definition draw_card :: "int \<Rightarrow> deck \<Rightarrow> (error + card list) \<times> deck" where
  "draw_card n d =
     (if n \<le> 0 then (Inl ValueError, d)
      else if n > int (length (cards d)) then (Inl ValueError, d)
      else (Inr (take (nat n) (cards d)), d\<lparr>cards := drop (nat n) (cards d)\<rparr>))"

definition is_empty :: "deck \<Rightarrow> bool" where
  "is_empty d = (cards d = [])"

text \<open>A sequence of draw requests, each on the deck the previous one left.\<close>

fun draw_seq :: "int list \<Rightarrow> deck \<Rightarrow> (error + card list) list \<times> deck" where
  "draw_seq [] d = ([], d)"
| "draw_seq (n # ns) d =
     (case draw_card n d of (r, d1) \<Rightarrow>
        (case draw_seq ns d1 of (rs, d2) \<Rightarrow> (r # rs, d2)))"

fun drawn_cards :: "(error + card list) list \<Rightarrow> card list" where
  "drawn_cards [] = []"
| "drawn_cards (Inl e # rs) = drawn_cards rs"
| "drawn_cards (Inr cs # rs) = cs @ drawn_cards rs"




section \<open>Players (class Player)\<close>

record player =
  player_id :: nat
  chips :: int
  current_bet :: int
  hand :: "card list"
  action :: "string option"
  is_active :: bool

definition Player_init :: "nat \<Rightarrow> int \<Rightarrow> player" where
  "Player_init i initial_chips =
     \<lparr>player_id = i, chips = initial_chips, current_bet = 0, hand = [],
      action = None, is_active = True\<rparr>"

text \<open>
  Each method returns the exception it raised, if any, and the player after the call.
  \<^verbatim>\<open>bet\<close> raises before it assigns.
\<close>

definition bet :: "int \<Rightarrow> player \<Rightarrow> (error + unit) \<times> player" where
  "bet amount p =
     (if amount > chips p then (Inl ValueError, p)
      else (Inr (), p\<lparr>current_bet := amount, chips := chips p - amount\<rparr>))"

definition fold_player :: "player \<Rightarrow> (error + unit) \<times> player" where
  "fold_player p = (Inr (), p\<lparr>is_active := False\<rparr>)"

definition all_in :: "player \<Rightarrow> (error + unit) \<times> player" where
  "all_in p = bet (chips p) p"

definition call :: "int \<Rightarrow> player \<Rightarrow> (error + unit) \<times> player" where
  "call amount p = (if amount > chips p then all_in p else bet amount p)"

definition raise_bet :: "int \<Rightarrow> player \<Rightarrow> (error + unit) \<times> player" where
  "raise_bet amount p =
     (if amount \<le> current_bet p then (Inl ValueError, p) else bet amount p)"

definition reset_for_new_round :: "player \<Rightarrow> player" where
  "reset_for_new_round p = p\<lparr>is_active := True, current_bet := 0, hand := [], action := None\<rparr>"

text \<open>
  A sequence of method calls on one player, by a caller that catches the exceptions: each
  call acts on the player the previous one left.
\<close>

datatype player_op = Bet int | Call int | Raise_bet int | All_in | Fold

fun apply_player_op :: "player_op \<Rightarrow> player \<Rightarrow> (error + unit) \<times> player" where
  "apply_player_op (Bet a) p = bet a p"
| "apply_player_op (Call a) p = call a p"
| "apply_player_op (Raise_bet a) p = raise_bet a p"
| "apply_player_op All_in p = all_in p"
| "apply_player_op Fold p = fold_player p"

fun run_player_ops :: "player_op list \<Rightarrow> player \<Rightarrow> player" where
  "run_player_ops [] p = p"
| "run_player_ops (x # xs) p = run_player_ops xs (snd (apply_player_op x p))"

section \<open>Hand evaluation (class Poker)\<close>

text \<open>
  The keys of \<^verbatim>\<open>HAND_RANKINGS\<close>, in the order of the dictionary; \<open>Pair_Hand\<close> is the key
  \<^verbatim>\<open>"Pair"\<close>.
\<close>

datatype hand_name = Royal_Flush | Straight_Flush | Four_of_a_Kind | Full_House | Flush
  | Straight | Three_of_a_Kind | Two_Pair | Pair_Hand | High_Card

fun HAND_RANKINGS :: "hand_name \<Rightarrow> nat" where
  "HAND_RANKINGS Royal_Flush = 11"
| "HAND_RANKINGS Straight_Flush = 10"
| "HAND_RANKINGS Four_of_a_Kind = 9"
| "HAND_RANKINGS Full_House = 8"
| "HAND_RANKINGS Flush = 7"
| "HAND_RANKINGS Straight = 6"
| "HAND_RANKINGS Three_of_a_Kind = 5"
| "HAND_RANKINGS Two_Pair = 4"
| "HAND_RANKINGS Pair_Hand = 3"
| "HAND_RANKINGS High_Card = 2"

definition HAND_NAMES :: "hand_name list" where
  "HAND_NAMES = [Royal_Flush, Straight_Flush, Four_of_a_Kind, Full_House, Flush, Straight,
     Three_of_a_Kind, Two_Pair, Pair_Hand, High_Card]"

definition BIG_BLIND :: int where
  "BIG_BLIND = 10"


text \<open>
  \<^verbatim>\<open>sorted(xs, key=k, reverse=True)\<close>: a stable sort into descending order; elements that
  compare equal keep the order they had. The first argument is the strict order on the
  elements (\<open>lt a b\<close>: a sorts below b).
\<close>

fun insort_reverse :: "('a \<Rightarrow> 'a \<Rightarrow> bool) \<Rightarrow> 'a \<Rightarrow> 'a list \<Rightarrow> 'a list" where
  "insort_reverse lt x [] = [x]"
| "insort_reverse lt x (y # ys) =
     (if lt x y then y # insort_reverse lt x ys else x # y # ys)"

definition sorted_reverse :: "('a \<Rightarrow> 'a \<Rightarrow> bool) \<Rightarrow> 'a list \<Rightarrow> 'a list" where
  "sorted_reverse lt xs = foldr (insort_reverse lt) xs []"

definition by_rank :: "card \<Rightarrow> card \<Rightarrow> bool" where
  "by_rank a b = (rank_index (rank a) < rank_index (rank b))"

text \<open>\<^verbatim>\<open>len(set(suits)) == 1\<close>: the number of distinct suits is one.\<close>

definition is_flush :: "card list \<Rightarrow> bool" where
  "is_flush cs = (length (remdups (map suit cs)) = 1)"

definition is_straight :: "card list \<Rightarrow> bool" where
  "is_straight cs =
     (let values = sort (map (\<lambda>c. rank_index (rank c)) cs);
          wheel = [12, 0, 1, 2, 3]
      in list_all (\<lambda>(a, b). int b - int a = 1) (zip values (tl values)) \<or> values = wheel)"

text \<open>
  \<^verbatim>\<open>collections.Counter\<close> is a dictionary that keeps its keys in the order of their first
  insertion; \<^verbatim>\<open>most_common()\<close> is \<^verbatim>\<open>sorted(items, key=count, reverse=True)\<close>.
\<close>

fun counter_add :: "'a \<Rightarrow> ('a \<times> nat) list \<Rightarrow> ('a \<times> nat) list" where
  "counter_add x [] = [(x, 1)]"
| "counter_add x ((k, c) # kcs) =
     (if k = x then (k, c + 1) # kcs else (k, c) # counter_add x kcs)"

definition Counter :: "'a list \<Rightarrow> ('a \<times> nat) list" where
  "Counter xs = foldl (\<lambda>m x. counter_add x m) [] xs"

definition most_common :: "('a \<times> nat) list \<Rightarrow> ('a \<times> nat) list" where
  "most_common m = sorted_reverse (\<lambda>a b. snd a < snd b) m"

definition get_counts :: "card list \<Rightarrow> (rank \<times> nat) list" where
  "get_counts cs = most_common (Counter (map rank cs))"

definition get_pairs :: "(rank \<times> nat) list \<Rightarrow> nat \<Rightarrow> rank list" where
  "get_pairs counts n_pairs = take n_pairs (map fst (filter (\<lambda>(r, c). c = 2) counts))"

text \<open>The two loops return the first rank with the count, and None when they run out.\<close>

fun get_three_of_a_kind :: "(rank \<times> nat) list \<Rightarrow> rank option" where
  "get_three_of_a_kind [] = None"
| "get_three_of_a_kind ((r, c) # rest) = (if c = 3 then Some r else get_three_of_a_kind rest)"

fun get_four_of_a_kind :: "(rank \<times> nat) list \<Rightarrow> rank option" where
  "get_four_of_a_kind [] = None"
| "get_four_of_a_kind ((r, c) # rest) = (if c = 4 then Some r else get_four_of_a_kind rest)"

text \<open>
  The \<^verbatim>\<open>has_...\<close> methods return a pair: a flag, and the list of ranks or None. A rank
  is a non-empty string, so \<^verbatim>\<open>if three_of_a_kind\<close> asks whether the loop found one.
\<close>

definition has_pair :: "card list \<Rightarrow> bool \<times> rank list option" where
  "has_pair all_cards =
     (let counts = get_counts all_cards; pair = get_pairs counts 1
      in if pair \<noteq> [] then (True, Some pair) else (False, None))"

definition has_two_pairs :: "card list \<Rightarrow> bool \<times> rank list option" where
  "has_two_pairs all_cards =
     (let counts = get_counts all_cards; pairs = get_pairs counts 2
      in if length pairs = 2 then (True, Some pairs) else (False, None))"

definition has_three_of_a_kind :: "card list \<Rightarrow> bool \<times> rank list option" where
  "has_three_of_a_kind all_cards =
     (let counts = get_counts all_cards
      in case get_three_of_a_kind counts of
           Some three_of_a_kind \<Rightarrow> (True, Some [three_of_a_kind])
         | None \<Rightarrow> (False, None))"

definition has_full_house :: "card list \<Rightarrow> bool \<times> rank list option" where
  "has_full_house all_cards =
     (let counts = get_counts all_cards; pair = get_pairs counts 1
      in case get_three_of_a_kind counts of
           Some three_of_a_kind \<Rightarrow>
             (if pair \<noteq> [] then (True, Some [three_of_a_kind, hd pair]) else (False, None))
         | None \<Rightarrow> (False, None))"

definition has_four_of_a_kind :: "card list \<Rightarrow> bool \<times> rank list option" where
  "has_four_of_a_kind all_cards =
     (let counts = get_counts all_cards
      in case get_four_of_a_kind counts of
           Some four_of_a_kind \<Rightarrow> (True, Some [four_of_a_kind])
         | None \<Rightarrow> (False, None))"

text \<open>
  \<^verbatim>\<open>max(hand, key=...)\<close> on a non-empty list: the running maximum is replaced only by an
  element whose key is strictly greater, so the first of several maxima is returned.
\<close>

fun max_by_rank :: "card \<Rightarrow> card list \<Rightarrow> card" where
  "max_by_rank m [] = m"
| "max_by_rank m (x # xs) = max_by_rank (if by_rank m x then x else m) xs"

text \<open>
  \<^verbatim>\<open>evaluate_hand\<close>. With an empty hand it returns \<^verbatim>\<open>(0, [])\<close> at once; with a non-empty
  hand it first calls itself on the empty hand to obtain \<^verbatim>\<open>board_ranking\<close>. Where the
  source indexes a list of ranks (\<^verbatim>\<open>ranks[0]\<close>, \<^verbatim>\<open>ranks[1]\<close>), the flag tested just
  before guarantees the list has that element (lemma \<open>has_ranks\<close> below).
\<close>

fun evaluate_hand :: "card list \<Rightarrow> card list \<Rightarrow> nat \<times> card list" where
  "evaluate_hand [] board_cards = (0, [])"
| "evaluate_hand (h # hs) board_cards =
     (let hole = h # hs;
          all_cards = hole @ board_cards;
          board_ranking = fst (evaluate_hand [] board_cards)
      in
      if is_flush all_cards \<and> is_straight all_cards then
        (if set (map rank all_cards) = set [Ten, Jack, Queen, King, Ace]
         then (HAND_RANKINGS Royal_Flush, all_cards)
         else (let straight_flush_result = (HAND_RANKINGS Straight_Flush, all_cards)
               in if fst straight_flush_result \<ge> board_ranking
                  then straight_flush_result else (board_ranking, [])))
      else if fst (has_four_of_a_kind all_cards) then
        (let four_of_a_kind_rank = the (snd (has_four_of_a_kind all_cards)) ! 0;
             four_of_a_kind_cards =
               sorted_reverse by_rank (filter (\<lambda>c. rank c = four_of_a_kind_rank) all_cards);
             remaining_card =
               take 1 (sorted_reverse by_rank
                         (filter (\<lambda>c. rank c \<noteq> four_of_a_kind_rank) all_cards))
         in (HAND_RANKINGS Four_of_a_Kind, four_of_a_kind_cards @ remaining_card))
      else if fst (has_full_house all_cards) then
        (let three_cards_rank = the (snd (has_full_house all_cards)) ! 0;
             pair_rank = the (snd (has_full_house all_cards)) ! 1;
             three_cards =
               sorted_reverse by_rank (filter (\<lambda>c. rank c = three_cards_rank) all_cards);
             pair_cards =
               sorted_reverse by_rank (filter (\<lambda>c. rank c = pair_rank) all_cards)
         in (HAND_RANKINGS Full_House, three_cards @ pair_cards))
      else if is_flush all_cards then (HAND_RANKINGS Flush, all_cards)
      else if is_straight all_cards then (HAND_RANKINGS Straight, all_cards)
      else if fst (has_three_of_a_kind all_cards) then
        (let three_of_a_kind_cards =
               filter (\<lambda>c. rank c = the (snd (has_three_of_a_kind all_cards)) ! 0) all_cards
         in (HAND_RANKINGS Three_of_a_Kind, three_of_a_kind_cards))
      else if fst (has_two_pairs all_cards) then
        (let first_pair_cards =
               filter (\<lambda>c. rank c = the (snd (has_two_pairs all_cards)) ! 0) all_cards;
             second_pair_cards =
               filter (\<lambda>c. rank c = the (snd (has_two_pairs all_cards)) ! 1) all_cards
         in (HAND_RANKINGS Two_Pair, first_pair_cards @ second_pair_cards))
      else if fst (has_pair all_cards) then
        (let pair_cards =
               filter (\<lambda>c. rank c = the (snd (has_pair all_cards)) ! 0) all_cards
         in (HAND_RANKINGS Pair_Hand, pair_cards))
      else if hole \<noteq> [] \<and> HAND_RANKINGS High_Card \<ge> board_ranking then
        (HAND_RANKINGS High_Card, [max_by_rank h hs])
      else (board_ranking, []))"

section \<open>Showdown (best_five_cards, show_results)\<close>

text \<open>\<^verbatim>\<open>itertools.combinations(xs, k)\<close>, in the order itertools produces them.\<close>

fun combinations :: "'a list \<Rightarrow> nat \<Rightarrow> 'a list list" where
  "combinations xs 0 = [[]]"
| "combinations [] (Suc k) = []"
| "combinations (x # xs) (Suc k) =
     map (\<lambda>ys. x # ys) (combinations xs k) @ combinations xs (Suc k)"

text \<open>Python's order on sequences of integers: \<open>tuple_less a b\<close> is \<^verbatim>\<open>a < b\<close>.\<close>

fun tuple_less :: "nat list \<Rightarrow> nat list \<Rightarrow> bool" where
  "tuple_less [] [] = False"
| "tuple_less [] (y # ys) = True"
| "tuple_less (x # xs) [] = False"
| "tuple_less (x # xs) (y # ys) = (if x = y then tuple_less xs ys else x < y)"

text \<open>
  \<^verbatim>\<open>best_five_cards\<close> returns the empty list when there are fewer than five cards and a
  tuple of five rank values otherwise. Python never finds a list equal to a tuple and
  raises TypeError when it orders one against the other, so the two are kept apart.
\<close>

datatype pyseq = PyList "nat list" | PyTuple "nat list"

definition best_five_cards :: "card list \<Rightarrow> pyseq" where
  "best_five_cards cs =
     (let card_values = sorted_reverse (<) (map (\<lambda>c. rank_index (rank c)) cs);
          combs = combinations card_values 5
      in if combs = [] then PyList [] else PyTuple (sorted_reverse tuple_less combs ! 0))"

fun seq_gt :: "pyseq \<Rightarrow> pyseq \<Rightarrow> error + bool" where
  "seq_gt (PyList a) (PyList b) = Inr (tuple_less b a)"
| "seq_gt (PyTuple a) (PyTuple b) = Inr (tuple_less b a)"
| "seq_gt (PyList a) (PyTuple b) = Inl TypeError"
| "seq_gt (PyTuple a) (PyList b) = Inl TypeError"

text \<open>
  \<^verbatim>\<open>a > b\<close> on the keys \<^verbatim>\<open>(x[0], best_five_cards(x[1]))\<close>: the first components decide
  when they differ; equal keys are not greater; otherwise the second components are
  ordered.
\<close>

definition key_gt :: "nat \<times> pyseq \<Rightarrow> nat \<times> pyseq \<Rightarrow> error + bool" where
  "key_gt a b =
     (if fst a \<noteq> fst b then Inr (fst a > fst b)
      else if snd a = snd b then Inr False
      else seq_gt (snd a) (snd b))"

text \<open>
  \<^verbatim>\<open>max(xs, key=f)\<close>: ValueError on an empty list; the running maximum is replaced by an
  item whose key is greater than the key of the maximum so far.
\<close>

fun max_loop :: "('a \<Rightarrow> nat \<times> pyseq) \<Rightarrow> 'a \<Rightarrow> 'a list \<Rightarrow> error + 'a" where
  "max_loop f m [] = Inr m"
| "max_loop f m (x # xs) =
     (case key_gt (f x) (f m) of
        Inl e \<Rightarrow> Inl e
      | Inr gt \<Rightarrow> max_loop f (if gt then x else m) xs)"

definition max_key :: "('a \<Rightarrow> nat \<times> pyseq) \<Rightarrow> 'a list \<Rightarrow> error + 'a" where
  "max_key f xs = (case xs of [] \<Rightarrow> Inl ValueError | x # rest \<Rightarrow> max_loop f x rest)"

text \<open>
  The name printed for a ranking: the first key of \<^verbatim>\<open>HAND_RANKINGS\<close> with that value;
  indexing the empty list of matches raises IndexError.
\<close>

definition hand_category :: "nat \<Rightarrow> error + hand_name" where
  "hand_category v =
     (case filter (\<lambda>key. HAND_RANKINGS key = v) HAND_NAMES of
        [] \<Rightarrow> Inl IndexError
      | key # _ \<Rightarrow> Inr key)"

fun hand_categories :: "(nat \<times> card list) list \<Rightarrow> error + hand_name list" where
  "hand_categories [] = Inr []"
| "hand_categories (ranking # rest) =
     (case hand_category (fst ranking) of
        Inl e \<Rightarrow> Inl e
      | Inr key \<Rightarrow> (case hand_categories rest of Inl e \<Rightarrow> Inl e | Inr keys \<Rightarrow> Inr (key # keys)))"

text \<open>
  \<^verbatim>\<open>show_results\<close> (the second definition of the class, which replaces the first) prints
  and returns nothing; what it prints is returned here: the rankings it computed, the
  category name of each player and \<^verbatim>\<open>potential_winners\<close> (indices into the player list;
  the print adds one). A ranking is a winner when the pair (category, list of cards) is
  equal to \<^verbatim>\<open>max_rank\<close>.
\<close>

record results =
  hand_rankings :: "(nat \<times> card list) list"
  categories :: "hand_name list"
  potential_winners :: "nat list"

definition show_results :: "player list \<Rightarrow> card list \<Rightarrow> error + results" where
  "show_results ps board_cards =
     (let rankings = map (\<lambda>p. evaluate_hand (hand p) board_cards) ps
      in case max_key (\<lambda>x. (fst x, best_five_cards (snd x))) rankings of
           Inl e \<Rightarrow> Inl e
         | Inr max_rank \<Rightarrow>
             (case hand_categories rankings of
                Inl e \<Rightarrow> Inl e
              | Inr keys \<Rightarrow>
                  Inr \<lparr>hand_rankings = rankings, categories = keys,
                       potential_winners =
                         map fst (filter (\<lambda>(i, ranking). ranking = max_rank)
                                    (zip [0 ..< length rankings] rankings))\<rparr>))"

section \<open>The betting round and the hand (GameState, Poker.betting_round, Poker.play)\<close>

record game_state =
  current_betting_round :: nat
  players_in_game :: "bool list"
  current_max_bet :: int
  pot_size :: int

definition GameState_init :: "nat \<Rightarrow> game_state" where
  "GameState_init n =
     \<lparr>current_betting_round = 0, players_in_game = replicate n True,
      current_max_bet = 0, pot_size = 0\<rparr>"

definition start_new_betting_round :: "game_state \<Rightarrow> game_state" where
  "start_new_betting_round gs =
     gs\<lparr>current_betting_round := current_betting_round gs + 1, current_max_bet := 0\<rparr>"

text \<open>\<^verbatim>\<open>players_in_game[player_id] = False\<close> raises IndexError out of range.\<close>

definition player_fold :: "nat \<Rightarrow> game_state \<Rightarrow> error + game_state" where
  "player_fold i gs =
     (if i < length (players_in_game gs)
      then Inr (gs\<lparr>players_in_game := (players_in_game gs)[i := False]\<rparr>)
      else Inl IndexError)"

definition update_pot :: "int \<Rightarrow> game_state \<Rightarrow> game_state" where
  "update_pot b gs = gs\<lparr>pot_size := pot_size gs + b\<rparr>"

definition update_max_bet :: "int \<Rightarrow> game_state \<Rightarrow> game_state" where
  "update_max_bet b gs = (if b > current_max_bet gs then gs\<lparr>current_max_bet := b\<rparr> else gs)"

record poker =
  num_players :: nat
  players :: "player list"
  board :: "card list"
  deck :: deck
  game_state :: game_state
  player_positions :: "nat list"

text \<open>
  \<^verbatim>\<open>Poker.__init__\<close>. The constructor shuffles the deck with the system's random source;
  the second argument is the deck as the shuffle left it.
\<close>

definition Poker_init :: "int \<Rightarrow> deck \<Rightarrow> error + poker" where
  "Poker_init n shuffled =
     (if n < 2 \<or> n > 9 then Inl ValueError
      else Inr \<lparr>num_players = nat n,
                players = map (\<lambda>i. Player_init i 100) [0 ..< nat n],
                board = [],
                deck = shuffled,
                game_state = GameState_init (nat n),
                player_positions = [0 ..< nat n]\<rparr>)"

definition update_player_positions :: "poker \<Rightarrow> poker" where
  "update_player_positions g =
     g\<lparr>player_positions :=
         (if player_positions g = [] then []
          else last (player_positions g) # butlast (player_positions g))\<rparr>"

text \<open>Sequencing of calls that may raise: the first exception ends the computation.\<close>

definition and_then :: "error + 'a \<Rightarrow> ('a \<Rightarrow> error + 'b) \<Rightarrow> error + 'b" where
  "and_then r f = (case r of Inl e \<Rightarrow> Inl e | Inr x \<Rightarrow> f x)"







text \<open>
  Console input: the lines a player types are the elements of a list, read from the
  front; reading past its end raises EOFError, as \<^verbatim>\<open>input()\<close> does at the end of the
  input. The lines are ASCII text.
\<close>

definition lower :: "string \<Rightarrow> string" where
  "lower s =
     map (\<lambda>c. if 65 \<le> (of_char c :: nat) \<and> (of_char c :: nat) \<le> 90
               then char_of ((of_char c :: nat) + 32) else c) s"

definition is_space :: "char \<Rightarrow> bool" where
  "is_space c = ((of_char c :: nat) \<in> {9, 10, 11, 12, 13, 28, 29, 30, 31, 32})"

definition strip :: "string \<Rightarrow> string" where
  "strip s = rev (dropWhile is_space (rev (dropWhile is_space s)))"

definition isdigit :: "string \<Rightarrow> bool" where
  "isdigit s =
     (s \<noteq> [] \<and> list_all (\<lambda>c. 48 \<le> (of_char c :: nat) \<and> (of_char c :: nat) \<le> 57) s)"

definition int_of_string :: "string \<Rightarrow> int" where
  "int_of_string s = foldl (\<lambda>n c. 10 * n + (int (of_char c) - 48)) 0 s"

definition VALID_ACTIONS :: "string list" where
  "VALID_ACTIONS = [''fold'', ''call'', ''raise'']"

fun read_action :: "string list \<Rightarrow> error + (string \<times> string list)" where
  "read_action [] = Inl EOFError"
| "read_action (l # ls) =
     (let a = strip (lower l)
      in if a \<in> set VALID_ACTIONS then Inr (a, ls) else read_action ls)"

fun read_bet :: "int \<Rightarrow> int \<Rightarrow> string list \<Rightarrow> error + (int \<times> string list)" where
  "read_bet max_bet stack [] = Inl EOFError"
| "read_bet max_bet stack (l # ls) =
     (if \<not> isdigit l \<or> int_of_string l \<le> max_bet \<or> int_of_string l > stack
         \<or> int_of_string l < 2 * BIG_BLIND
      then read_bet max_bet stack ls
      else Inr (int_of_string l, ls))"

text \<open>
  The turn of a seat that posts no blind (the \<^verbatim>\<open>else\<close> branch of the loop of
  \<^verbatim>\<open>betting_round\<close>): the action is read, then the amount, then the player's method is
  called and the pot and the max bet are updated from the player's \<^verbatim>\<open>current_bet\<close>. The
  result says whether the seat counts into \<^verbatim>\<open>active_players\<close> (it did not fold).
\<close>

definition seat_action ::
    "player \<Rightarrow> game_state \<Rightarrow> string list \<Rightarrow> error + (player \<times> game_state \<times> string list \<times> bool)" where
  "seat_action p gs inputs =
     and_then (read_action inputs) (\<lambda>(act, inputs1).
       let p1 = (if act = ''fold'' then snd (fold_player p) else p);
           counted = (act \<noteq> ''fold'')
       in and_then
            (if act = ''raise'' then read_bet (current_max_bet gs) (chips p1) inputs1
             else if act = ''call'' then Inr (current_max_bet gs, inputs1)
             else Inr (0, inputs1))
            (\<lambda>(amount, inputs2).
               and_then
                 (if act = ''call'' then
                    (case call amount p1 of (Inl e, p2) \<Rightarrow> Inl e | (Inr u, p2) \<Rightarrow> Inr (p2, gs))
                  else if act = ''raise'' then
                    (case raise_bet amount p1 of (Inl e, p2) \<Rightarrow> Inl e | (Inr u, p2) \<Rightarrow> Inr (p2, gs))
                  else
                    and_then (player_fold (player_id p1) gs)
                      (\<lambda>gs1. Inr (snd (fold_player p1), gs1)))
                 (\<lambda>(p2, gs2).
                    Inr (p2, update_max_bet (current_bet p2) (update_pot (current_bet p2) gs2),
                         inputs2, counted))))"











text \<open>
  A hand of five seats on the deck in the order \<^verbatim>\<open>Deck.__init__\<close> builds it (one of the
  orders a shuffle can leave), and the lines typed by the seats that act: before the
  flop seat 5 calls, seat 1 folds, seat 2 calls; on the next street seats 3, 4 and 5
  fold, which leaves seat 2 the only active seat.
\<close>

definition five_seats :: poker where
  "five_seats =
     \<lparr>num_players = 5,
      players = [Player_init 0 100, Player_init 1 100, Player_init 2 100, Player_init 3 100,
                 Player_init 4 100],
      board = [],
      deck = Deck_init,
      game_state = GameState_init 5,
      player_positions = [0, 1, 2, 3, 4]\<rparr>"



section \<open>Properties of the deck\<close>

lemma draw_card_mset:
  "draw_card n d = (Inr cs, d') \<Longrightarrow> mset (cs @ cards d') = mset (cards d)"
proof -
  assume a: "draw_card n d = (Inr cs, d')"
  then have cs: "cs = take (nat n) (cards d)" and d': "cards d' = drop (nat n) (cards d)"
    by (auto simp: draw_card_def split: if_splits)
  have "mset (take (nat n) (cards d) @ drop (nat n) (cards d)) = mset (cards d)"
    by simp
  then show ?thesis using cs d' by simp
qed

lemma draw_card_error: "draw_card n d = (Inl e, d') \<Longrightarrow> d' = d"
  by (auto simp: draw_card_def split: if_splits)

lemma draw_seq_mset:
  "draw_seq ns d = (rs, d') \<Longrightarrow> mset (drawn_cards rs @ cards d') = mset (cards d)"
proof (induction ns arbitrary: d rs d')
  case Nil
  then show ?case by simp
next
  case (Cons n ns)
  obtain r d1 where r: "draw_card n d = (r, d1)" by (cases "draw_card n d")
  obtain rs1 d2 where rs1: "draw_seq ns d1 = (rs1, d2)" by (cases "draw_seq ns d1")
  from Cons.prems r rs1 have eq: "rs = r # rs1" "d' = d2" by auto
  have ih: "mset (drawn_cards rs1 @ cards d2) = mset (cards d1)"
    using Cons.IH [OF rs1] .
  show ?case
  proof (cases r)
    case (Inl e)
    with r have "d1 = d" by (simp add: draw_card_error)
    with ih eq Inl show ?thesis by simp
  next
    case (Inr cs)
    with r have "draw_card n d = (Inr cs, d1)" by simp
    then have "mset (cs @ cards d1) = mset (cards d)" by (rule draw_card_mset)
    with ih eq Inr show ?thesis by (simp add: ac_simps)
  qed
qed

lemma distinct_Deck_init: "distinct (cards Deck_init)"
  by (simp add: Deck_init_def SUITS_def RANKS_def)

lemma length_Deck_init: "length (cards Deck_init) = 52"
  by (simp add: Deck_init_def SUITS_def RANKS_def)

text \<open>
  C9. Start from the fresh deck in any order (the 52 cards of \<^verbatim>\<open>Deck.__init__\<close>, shuffled
  or not). After any sequence of draw requests, the cards the successful draws returned
  together with the cards left in the deck are the 52 cards of the fresh deck, each once.
  On every deck, whatever has been drawn from it before, a draw of more cards than
  remain raises ValueError and leaves the deck unchanged; a draw of a positive number of
  cards that the deck still holds returns exactly that many cards, the front of the
  deck, and leaves the rest; and a draw that returns cards returns as many as were
  requested.
\<close>

theorem draw_preserves_deck:
  "(mset (cards d) = mset (cards Deck_init) \<longrightarrow>
      (\<forall>ns rs d'. draw_seq ns d = (rs, d') \<longrightarrow>
            mset (drawn_cards rs @ cards d') = mset (cards Deck_init)
          \<and> distinct (drawn_cards rs @ cards d')
          \<and> length (drawn_cards rs @ cards d') = 52))
   \<and> (n > int (length (cards e)) \<longrightarrow> draw_card n e = (Inl ValueError, e))
   \<and> (0 < n \<and> n \<le> int (length (cards e)) \<longrightarrow>
        draw_card n e
          = (Inr (take (nat n) (cards e)), e\<lparr>cards := drop (nat n) (cards e)\<rparr>))
   \<and> (draw_card n e = (Inr cs, e') \<longrightarrow>
        int (length cs) = n \<and> cs @ cards e' = cards e)"
proof (intro conjI allI impI)
  fix ns rs d'
  assume fresh: "mset (cards d) = mset (cards Deck_init)"
    and run: "draw_seq ns d = (rs, d')"
  have m: "mset (drawn_cards rs @ cards d') = mset (cards Deck_init)"
    using draw_seq_mset [OF run] fresh by simp
  show "mset (drawn_cards rs @ cards d') = mset (cards Deck_init)" by (rule m)
  show "distinct (drawn_cards rs @ cards d')"
    using m distinct_Deck_init by (metis mset_eq_imp_distinct_iff)
  show "length (drawn_cards rs @ cards d') = 52"
    using m length_Deck_init by (metis mset_eq_length)
next
  assume "n > int (length (cards e))"
  then show "draw_card n e = (Inl ValueError, e)"
    by (simp add: draw_card_def)
next
  assume "0 < n \<and> n \<le> int (length (cards e))"
  then show "draw_card n e
      = (Inr (take (nat n) (cards e)), e\<lparr>cards := drop (nat n) (cards e)\<rparr>)"
    by (simp add: draw_card_def)
next
  assume ok: "draw_card n e = (Inr cs, e')"
  then have n: "0 < n" "n \<le> int (length (cards e))"
    and cs: "cs = take (nat n) (cards e)" and e': "cards e' = drop (nat n) (cards e)"
    by (auto simp: draw_card_def split: if_splits)
  show "int (length cs) = n" using n cs by simp
  show "cs @ cards e' = cards e" using cs e' by simp
qed

text \<open>
  The witness draws from the reversed fresh deck; the deck \<open>e\<close> is that deck after fifty
  cards have been drawn, with two cards left: a request of five fails and leaves the two
  cards, a request of two returns them.
\<close>

theorem draw_preserves_deck_witness:
  "mset (cards \<lparr>cards = rev (cards Deck_init)\<rparr>) = mset (cards Deck_init)
   \<and> distinct (drawn_cards (fst (draw_seq [2, 60, 3] \<lparr>cards = rev (cards Deck_init)\<rparr>))
        @ cards (snd (draw_seq [2, 60, 3] \<lparr>cards = rev (cards Deck_init)\<rparr>)))
   \<and> length (drawn_cards (fst (draw_seq [2, 60, 3] \<lparr>cards = rev (cards Deck_init)\<rparr>))) = 5
   \<and> length (cards (snd (draw_seq [50] \<lparr>cards = rev (cards Deck_init)\<rparr>))) = 2
   \<and> draw_card 5 (snd (draw_seq [50] \<lparr>cards = rev (cards Deck_init)\<rparr>))
       = (Inl ValueError, snd (draw_seq [50] \<lparr>cards = rev (cards Deck_init)\<rparr>))
   \<and> fst (draw_card 2 (snd (draw_seq [50] \<lparr>cards = rev (cards Deck_init)\<rparr>)))
       = Inr [Card Hearts Three, Card Hearts Two]"
proof -
  define d where "d = \<lparr>cards = rev (cards Deck_init)\<rparr>"
  define run where "run = draw_seq [2, 60, 3] d"
  define e where "e = snd (draw_seq [50] d)"
  have h: "mset (cards d) = mset (cards Deck_init)" by (simp add: d_def)
  have r: "draw_seq [2, 60, 3] d = (fst run, snd run)" by (simp add: run_def)
  have five: "length (drawn_cards (fst run)) = 5"
    unfolding run_def d_def by (simp add: draw_card_def length_Deck_init)
  have e: "cards e = [Card Hearts Three, Card Hearts Two]"
    unfolding e_def d_def by code_simp
  have two: "length (cards e) = 2" unfolding e by simp
  have gt: "int (length (cards e)) < 5" unfolding two by simp
  have le: "0 < (2 :: int) \<and> 2 \<le> int (length (cards e))" unfolding two by simp
  note t5 = draw_preserves_deck [where d = d and n = 5 and e = e and cs = "[]" and e' = e]
  note t2 = draw_preserves_deck [where d = d and n = 2 and e = e and cs = "[]" and e' = e]
  have dist: "distinct (drawn_cards (fst run) @ cards (snd run))"
    by (rule t5 [THEN conjunct1, THEN mp, OF h, rule_format, OF r, THEN conjunct2,
                 THEN conjunct1])
  have fail: "draw_card 5 e = (Inl ValueError, e)"
    by (rule t5 [THEN conjunct2, THEN conjunct1, THEN mp, OF gt])
  have "draw_card 2 e = (Inr (take (nat 2) (cards e)), e\<lparr>cards := drop (nat 2) (cards e)\<rparr>)"
    by (rule t2 [THEN conjunct2, THEN conjunct2, THEN conjunct1, THEN mp, OF le])
  then have "fst (draw_card 2 e) = Inr (take (nat 2) (cards e))" by (simp only: fst_conv)
  then have ok: "fst (draw_card 2 e) = Inr [Card Hearts Three, Card Hearts Two]"
    unfolding e by simp
  have "mset (cards d) = mset (cards Deck_init)
      \<and> distinct (drawn_cards (fst run) @ cards (snd run))
      \<and> length (drawn_cards (fst run)) = 5
      \<and> length (cards e) = 2
      \<and> draw_card 5 e = (Inl ValueError, e)
      \<and> fst (draw_card 2 e) = Inr [Card Hearts Three, Card Hearts Two]"
    using h dist five two fail ok by (intro conjI)
  then show ?thesis unfolding e_def run_def d_def .
qed

section \<open>Properties of the player's methods\<close>

lemma bet_chips_nonneg: "0 \<le> chips p \<Longrightarrow> 0 \<le> chips (snd (bet a p))"
  by (simp add: bet_def)

lemma apply_player_op_chips_nonneg:
  "0 \<le> chips p \<Longrightarrow> 0 \<le> chips (snd (apply_player_op x p))"
  by (cases x) (simp_all add: bet_def call_def all_in_def raise_bet_def fold_player_def)

lemma run_player_ops_chips_nonneg:
  "0 \<le> chips p \<Longrightarrow> 0 \<le> chips (run_player_ops xs p)"
  by (induction xs arbitrary: p) (simp_all add: apply_player_op_chips_nonneg)

text \<open>
  C10. A player whose chip count is not negative keeps a non-negative chip count through
  every sequence of bet, call, raise_bet, all_in and fold. A bet of more than the stack
  raises ValueError and leaves the player (chips and current_bet included) unchanged; a
  call of more than the stack raises nothing, commits exactly the remaining chips and
  leaves the stack at zero.
\<close>

theorem player_chips_never_negative:
  "(0 \<le> chips p \<longrightarrow> 0 \<le> chips (run_player_ops xs p))
   \<and> (a > chips p \<longrightarrow> bet a p = (Inl ValueError, p))
   \<and> (a > chips p \<longrightarrow> call a p = (Inr (), p\<lparr>current_bet := chips p, chips := 0\<rparr>))"
  by (simp add: run_player_ops_chips_nonneg bet_def call_def all_in_def)

theorem player_chips_never_negative_witness:
  "0 \<le> chips (Player_init 0 100)
   \<and> 0 \<le> chips (run_player_ops [Raise_bet 20, Call 200, Bet 5, Fold, All_in] (Player_init 0 100))
   \<and> 150 > chips (Player_init 0 100)
   \<and> bet 150 (Player_init 0 100) = (Inl ValueError, Player_init 0 100)
   \<and> call 150 (Player_init 0 100)
       = (Inr (), (Player_init 0 100)\<lparr>current_bet := 100, chips := 0\<rparr>)"
  using player_chips_never_negative
          [of "Player_init 0 100" "[Raise_bet 20, Call 200, Bet 5, Fold, All_in]" 150]
  by (simp add: Player_init_def)

section \<open>Hand evaluation on the examples of the specification\<close>

text \<open>
  The comparison with the wheel in \<^verbatim>\<open>is_straight\<close> can never succeed: \<^verbatim>\<open>values\<close> is
  sorted into ascending order and the wheel \<^verbatim>\<open>[12, 0, 1, 2, 3]\<close> is not.
\<close>

lemma sorted_not_wheel: "sort (vs :: nat list) \<noteq> [12, 0, 1, 2, 3]"
proof
  assume "sort vs = [12, 0, 1, 2, 3]"
  moreover have "sorted (sort vs)" by simp
  ultimately have "sorted [12, 0, 1, 2, 3 :: nat]" by simp
  then show False by simp
qed

lemma is_straight_consecutive:
  "is_straight cs =
     list_all (\<lambda>(a, b). int b - int a = 1)
       (zip (sort (map (\<lambda>c. rank_index (rank c)) cs))
            (tl (sort (map (\<lambda>c. rank_index (rank c)) cs))))"
  unfolding is_straight_def Let_def using sorted_not_wheel by blast

text \<open>
  Whenever one of the \<^verbatim>\<open>has_...\<close> methods returns the flag True, it returns with it a
  list of as many ranks as \<^verbatim>\<open>evaluate_hand\<close> reads from it.
\<close>

lemma has_ranks:
  "fst (has_four_of_a_kind cs) \<Longrightarrow> \<exists>r. snd (has_four_of_a_kind cs) = Some [r]"
  "fst (has_full_house cs) \<Longrightarrow> \<exists>r r'. snd (has_full_house cs) = Some [r, r']"
  "fst (has_three_of_a_kind cs) \<Longrightarrow> \<exists>r. snd (has_three_of_a_kind cs) = Some [r]"
  "fst (has_two_pairs cs) \<Longrightarrow> \<exists>r r'. snd (has_two_pairs cs) = Some [r, r']"
  "fst (has_pair cs) \<Longrightarrow> \<exists>r. snd (has_pair cs) = Some [r]"
proof -
  show "fst (has_four_of_a_kind cs) \<Longrightarrow> \<exists>r. snd (has_four_of_a_kind cs) = Some [r]"
    by (auto simp: has_four_of_a_kind_def Let_def split: option.splits)
  show "fst (has_full_house cs) \<Longrightarrow> \<exists>r r'. snd (has_full_house cs) = Some [r, r']"
    by (auto simp: has_full_house_def Let_def split: option.splits if_splits)
  show "fst (has_three_of_a_kind cs) \<Longrightarrow> \<exists>r. snd (has_three_of_a_kind cs) = Some [r]"
    by (auto simp: has_three_of_a_kind_def Let_def split: option.splits)
  show "fst (has_two_pairs cs) \<Longrightarrow> \<exists>r r'. snd (has_two_pairs cs) = Some [r, r']"
  proof -
    assume "fst (has_two_pairs cs)"
    then have l: "length (get_pairs (get_counts cs) 2) = 2"
      and s: "snd (has_two_pairs cs) = Some (get_pairs (get_counts cs) 2)"
      by (auto simp: has_two_pairs_def Let_def split: if_splits)
    from l obtain r r' where "get_pairs (get_counts cs) 2 = [r, r']"
      by (auto simp: length_Suc_conv eval_nat_numeral)
    with s show ?thesis by simp
  qed
  show "fst (has_pair cs) \<Longrightarrow> \<exists>r. snd (has_pair cs) = Some [r]"
  proof -
    assume "fst (has_pair cs)"
    then have n: "get_pairs (get_counts cs) 1 \<noteq> []"
      and s: "snd (has_pair cs) = Some (get_pairs (get_counts cs) 1)"
      by (auto simp: has_pair_def Let_def split: if_splits)
    have "length (get_pairs (get_counts cs) 1) \<le> 1" by (simp add: get_pairs_def)
    with n obtain r where "get_pairs (get_counts cs) 1 = [r]"
      by (cases "get_pairs (get_counts cs) 1") auto
    with s show ?thesis by simp
  qed
qed

text \<open>
  C1. On hole cards A and K of spades and the board Q, J, 10 of spades, 2 of hearts, 3 of
  diamonds, \<^verbatim>\<open>evaluate_hand\<close> does not return Royal Flush (11): the seven cards are not of
  one suit, so \<^verbatim>\<open>is_flush\<close> fails, and the result is High Card (2) with the ace. A player
  holding 2 of clubs and 7 of diamonds has a pair of twos (3) on this board, and
  \<^verbatim>\<open>show_results\<close> names that player (index 1) the only winner.
\<close>

theorem royal_flush_example_evaluates_to_high_card:
  "evaluate_hand [Card Spades Ace, Card Spades King]
       [Card Spades Queen, Card Spades Jack, Card Spades Ten, Card Hearts Two,
        Card Diamonds Three]
     = (HAND_RANKINGS High_Card, [Card Spades Ace])
   \<and> evaluate_hand [Card Clubs Two, Card Diamonds Seven]
       [Card Spades Queen, Card Spades Jack, Card Spades Ten, Card Hearts Two,
        Card Diamonds Three]
     = (HAND_RANKINGS Pair_Hand, [Card Clubs Two, Card Hearts Two])
   \<and> map_sum id potential_winners
       (show_results
          [(Player_init 0 100)\<lparr>hand := [Card Spades Ace, Card Spades King]\<rparr>,
           (Player_init 1 100)\<lparr>hand := [Card Clubs Two, Card Diamonds Seven]\<rparr>]
          [Card Spades Queen, Card Spades Jack, Card Spades Ten, Card Hearts Two,
           Card Diamonds Three])
     = Inr [1]"
  by code_simp

text \<open>
  C2. The wheel A, 2, 3, 4, 5 is not given the category Straight: \<^verbatim>\<open>is_straight\<close> is
  false on it and \<^verbatim>\<open>evaluate_hand\<close> returns High Card (2) with the ace, while 2, 3, 4, 5, 6
  is a Straight (6).
\<close>

theorem wheel_evaluates_to_high_card:
  "\<not> is_straight [Card Spades Ace, Card Hearts Two, Card Diamonds Three, Card Clubs Four,
                   Card Spades Five]
   \<and> evaluate_hand [Card Spades Ace, Card Hearts Two]
       [Card Diamonds Three, Card Clubs Four, Card Spades Five]
     = (HAND_RANKINGS High_Card, [Card Spades Ace])
   \<and> evaluate_hand [Card Spades Six, Card Hearts Two]
       [Card Diamonds Three, Card Clubs Four, Card Spades Five]
     = (HAND_RANKINGS Straight,
        [Card Spades Six, Card Hearts Two, Card Diamonds Three, Card Clubs Four,
         Card Spades Five])"
  by code_simp

text \<open>
  C5. With empty hole cards \<^verbatim>\<open>evaluate_hand\<close> returns the fixed pair \<^verbatim>\<open>(0, [])\<close> for every
  board, not the ranking of the board; so \<^verbatim>\<open>board_ranking\<close> is always 0. On the board
  10, J, Q, K, A of spades the hole cards 2 of clubs and 3 of diamonds get High Card
  (2), although the five board cards, evaluated as a hand of their own, are a Royal
  Flush (11).
\<close>

theorem empty_hole_returns_sentinel:
  "evaluate_hand [] bd = (0, [])
   \<and> evaluate_hand [Card Clubs Two, Card Diamonds Three]
       [Card Spades Ten, Card Spades Jack, Card Spades Queen, Card Spades King,
        Card Spades Ace]
     = (HAND_RANKINGS High_Card, [Card Diamonds Three])
   \<and> evaluate_hand [Card Spades Ten, Card Spades Jack]
       [Card Spades Queen, Card Spades King, Card Spades Ace]
     = (HAND_RANKINGS Royal_Flush,
        [Card Spades Ten, Card Spades Jack, Card Spades Queen, Card Spades King,
         Card Spades Ace])"
proof (intro conjI)
  show "evaluate_hand [] bd = (0, [])" by simp
qed code_simp+

section \<open>Counting ranks\<close>

text \<open>
  The list \<^verbatim>\<open>get_counts\<close> returns holds every rank of the cards once, with the number of
  cards of that rank; its order depends on the order of the cards.
\<close>

lemma map_of_counter_add:
  "map_of (counter_add x m) = (map_of m)(x \<mapsto> (case map_of m x of None \<Rightarrow> 0 | Some c \<Rightarrow> c) + 1)"
  by (induction m) (auto simp: fun_eq_iff)

lemma keys_counter_add:
  "fst ` set (counter_add x m) = insert x (fst ` set m)"
proof -
  have "map fst (counter_add x m) =
          (if x \<in> set (map fst m) then map fst m else map fst m @ [x])"
    by (induction m) (auto split: if_splits)
  then have "set (map fst (counter_add x m)) = insert x (set (map fst m))"
    by (auto split: if_splits)
  then show ?thesis by simp
qed

lemma distinct_counter_add:
  "distinct (map fst m) \<Longrightarrow> distinct (map fst (counter_add x m))"
proof (induction m)
  case Nil
  then show ?case by simp
next
  case (Cons kc m)
  obtain k c where kc: "kc = (k, c)" by (cases kc)
  show ?case
  proof (cases "k = x")
    case True
    with Cons.prems kc show ?thesis by simp
  next
    case False
    have "k \<notin> fst ` set (counter_add x m)"
      using Cons.prems kc False by (simp add: keys_counter_add)
    with Cons kc False show ?thesis by simp
  qed
qed

lemma counter_fold:
  "distinct (map fst m) \<Longrightarrow>
   distinct (map fst (foldl (\<lambda>m x. counter_add x m) m xs))
   \<and> (\<forall>k. map_of (foldl (\<lambda>m x. counter_add x m) m xs) k =
        (if k \<in> set xs \<or> k \<in> fst ` set m
         then Some ((case map_of m k of None \<Rightarrow> 0 | Some c \<Rightarrow> c) + count_list xs k)
         else None))"
proof (induction xs arbitrary: m)
  case Nil
  then show ?case by (auto simp: map_of_eq_None_iff split: option.splits)
next
  case (Cons x xs)
  have d: "distinct (map fst (counter_add x m))"
    using Cons.prems by (rule distinct_counter_add)
  note ih = Cons.IH [OF d]
  show ?case
  proof (intro conjI allI)
    show "distinct (map fst (foldl (\<lambda>m x. counter_add x m) m (x # xs)))"
      using ih by simp
  next
    fix k
    show "map_of (foldl (\<lambda>m x. counter_add x m) m (x # xs)) k =
        (if k \<in> set (x # xs) \<or> k \<in> fst ` set m
         then Some ((case map_of m k of None \<Rightarrow> 0 | Some c \<Rightarrow> c) + count_list (x # xs) k)
         else None)"
      using ih by (auto simp: map_of_counter_add keys_counter_add map_of_eq_None_iff
          split: option.splits)
  qed
qed

lemma distinct_Counter: "distinct (map fst (Counter xs))"
  using counter_fold [of "[]" xs] by (simp add: Counter_def)

lemma map_of_Counter:
  "map_of (Counter xs) k = (if k \<in> set xs then Some (count_list xs k) else None)"
  using counter_fold [of "[]" xs] by (simp add: Counter_def)

lemma set_Counter: "set (Counter xs) = (\<lambda>k. (k, count_list xs k)) ` set xs"
proof -
  have "\<And>k c. (k, c) \<in> set (Counter xs) \<longleftrightarrow> k \<in> set xs \<and> c = count_list xs k"
    using distinct_Counter [of xs] map_of_Counter [of xs]
    by (metis map_of_eq_Some_iff option.distinct(1) option.inject)
  then show ?thesis by auto
qed


lemma mset_insort_reverse: "mset (insort_reverse lt x xs) = add_mset x (mset xs)"
  by (induction xs) auto

lemma mset_sorted_reverse: "mset (sorted_reverse lt xs) = mset xs"
  unfolding sorted_reverse_def by (induction xs) (auto simp: mset_insort_reverse)

lemma set_sorted_reverse: "set (sorted_reverse lt xs) = set xs"
  by (metis mset_sorted_reverse set_mset_mset)


lemma set_get_counts:
  "set (get_counts cs) = (\<lambda>k. (k, count_list (map rank cs) k)) ` set (map rank cs)"
  by (simp add: get_counts_def most_common_def set_sorted_reverse set_Counter)

lemma get_four_of_a_kind_None:
  "get_four_of_a_kind counts = None \<longleftrightarrow> (\<forall>r. (r, 4) \<notin> set counts)"
  by (induction counts) (auto split: if_splits)

lemma get_three_of_a_kind_None:
  "get_three_of_a_kind counts = None \<longleftrightarrow> (\<forall>r. (r, 3) \<notin> set counts)"
  by (induction counts) (auto split: if_splits)

lemma get_pairs_empty:
  "get_pairs counts (Suc n) = [] \<longleftrightarrow> (\<forall>r. (r, 2) \<notin> set counts)"
  by (auto simp: get_pairs_def filter_empty_conv)


lemma in_get_counts:
  "0 < c \<Longrightarrow> (r, c) \<in> set (get_counts cs) \<longleftrightarrow> count_list (map rank cs) r = c"
proof -
  assume c: "0 < c"
  have "count_list (map rank cs) r = c \<Longrightarrow> r \<in> set (map rank cs)"
    using c count_notin [of r "map rank cs"] by auto
  then show ?thesis unfolding set_get_counts by auto
qed

lemma fst_has_four_of_a_kind:
  "fst (has_four_of_a_kind cs) \<longleftrightarrow> (\<exists>r. count_list (map rank cs) r = 4)"
proof -
  have "fst (has_four_of_a_kind cs) \<longleftrightarrow> get_four_of_a_kind (get_counts cs) \<noteq> None"
    by (simp add: has_four_of_a_kind_def Let_def split: option.splits)
  then show ?thesis by (simp add: get_four_of_a_kind_None in_get_counts)
qed



lemma fst_has_full_house:
  "fst (has_full_house cs) \<longleftrightarrow>
     (\<exists>r. count_list (map rank cs) r = 3) \<and> (\<exists>r. count_list (map rank cs) r = 2)"
proof -
  have "fst (has_full_house cs) \<longleftrightarrow>
          get_three_of_a_kind (get_counts cs) \<noteq> None \<and> get_pairs (get_counts cs) (Suc 0) \<noteq> []"
    by (simp add: has_full_house_def Let_def split: option.splits)
  then show ?thesis by (simp add: get_three_of_a_kind_None get_pairs_empty in_get_counts)
qed






lemma fst_evaluate_hand:
  "fst (evaluate_hand (h # hs) b) =
     (if is_flush ((h # hs) @ b) \<and> is_straight ((h # hs) @ b) then
        (if set (map rank ((h # hs) @ b)) = {Ten, Jack, Queen, King, Ace} then 11 else 10)
      else if fst (has_four_of_a_kind ((h # hs) @ b)) then 9
      else if fst (has_full_house ((h # hs) @ b)) then 8
      else if is_flush ((h # hs) @ b) then 7
      else if is_straight ((h # hs) @ b) then 6
      else if fst (has_three_of_a_kind ((h # hs) @ b)) then 5
      else if fst (has_two_pairs ((h # hs) @ b)) then 4
      else if fst (has_pair ((h # hs) @ b)) then 3
      else 2)"
  by (simp add: Let_def)


lemma consecutive_strictly_increasing:
  "list_all (\<lambda>(a, b). int b - int a = 1) (zip vs (tl vs)) \<Longrightarrow> sorted_wrt (<) vs"
proof (induction vs rule: induct_list012)
  case 1
  then show ?case by simp
next
  case (2 x)
  then show ?case by simp
next
  case (3 x y zs)
  from "3.prems" have xy: "x < y" and rest: "list_all (\<lambda>(a, b). int b - int a = 1) (zip (y # zs) (tl (y # zs)))"
    by auto
  have "sorted_wrt (<) (y # zs)" using "3.IH"(2) rest by simp
  with xy show ?case by auto
qed

lemma is_straight_distinct_ranks: "is_straight cs \<Longrightarrow> distinct (map rank cs)"
proof -
  assume "is_straight cs"
  then have "sorted_wrt (<) (sort (map (\<lambda>c. rank_index (rank c)) cs))"
    unfolding is_straight_consecutive by (rule consecutive_strictly_increasing)
  then have "distinct (sort (map (\<lambda>c. rank_index (rank c)) cs))"
    by (simp add: strict_sorted_iff)
  then have "distinct (map rank_index (map rank cs))"
    by (simp add: comp_def)
  then show ?thesis by (simp only: distinct_map [of rank_index])
qed

lemma repeated_rank_not_straight:
  assumes "2 \<le> count_list (map rank cs) r"
  shows "\<not> is_straight cs"
proof
  assume "is_straight cs"
  then have "distinct (map rank cs)" by (rule is_straight_distinct_ranks)
  then have "count (mset (map rank cs)) r \<le> 1"
    by (simp add: distinct_count_atmost_1)
  then have "count_list (map rank cs) r \<le> 1" by (simp only: count_mset)
  with assms show False by simp
qed



































text \<open>
  The same happens with two ranks of four cards, and with two ranks of three cards
  beside a pair; both need eight cards, which \<^verbatim>\<open>play\<close> can pass (it deals the turn and
  the river a second time after \<^verbatim>\<open>deal_community_cards\<close>).
\<close>

lemma two_quads_key_depends_on_order:
  "best_five_cards (snd (evaluate_hand [Card Clubs Two, Card Clubs Nine]
       [Card Diamonds Two, Card Hearts Two, Card Spades Two, Card Diamonds Nine,
        Card Hearts Nine, Card Spades Nine])) = PyTuple [7, 0, 0, 0, 0]
   \<and> best_five_cards (snd (evaluate_hand [Card Clubs Nine, Card Clubs Two]
       [Card Diamonds Two, Card Hearts Two, Card Spades Two, Card Diamonds Nine,
        Card Hearts Nine, Card Spades Nine])) = PyTuple [7, 7, 7, 7, 0]"
  by code_simp

lemma two_trips_key_depends_on_order:
  "best_five_cards (snd (evaluate_hand [Card Clubs Two, Card Clubs Nine]
       [Card Diamonds Two, Card Hearts Two, Card Diamonds Nine, Card Hearts Nine,
        Card Clubs Five, Card Diamonds Five])) = PyTuple [3, 3, 0, 0, 0]
   \<and> best_five_cards (snd (evaluate_hand [Card Clubs Nine, Card Clubs Two]
       [Card Diamonds Two, Card Hearts Two, Card Diamonds Nine, Card Hearts Nine,
        Card Clubs Five, Card Diamonds Five])) = PyTuple [7, 7, 7, 3, 3]"
  by code_simp










text \<open>
  With a non-empty hole, exactly three cards of one rank, exactly two of another and no
  rank with four cards give the category Full House.
\<close>

lemma full_house_reported:
  assumes "hole \<noteq> []"
    and "count_list (map rank (hole @ bd)) r3 = 3"
    and "count_list (map rank (hole @ bd)) r2 = 2"
    and "\<forall>r. count_list (map rank (hole @ bd)) r \<noteq> 4"
  shows "fst (evaluate_hand hole bd) = HAND_RANKINGS Full_House"
proof -
  from assms(1) obtain h hs where hole: "hole = h # hs" by (cases hole) auto
  have ns: "\<not> is_straight ((h # hs) @ bd)"
    using assms(3) hole by (intro repeated_rank_not_straight [where r = r2]) simp
  have four: "\<not> fst (has_four_of_a_kind ((h # hs) @ bd))"
    using assms(4) hole by (simp add: fst_has_four_of_a_kind)
  have full: "fst (has_full_house ((h # hs) @ bd))"
    using assms(2,3) hole unfolding fst_has_full_house by blast
  show ?thesis
    unfolding hole fst_evaluate_hand using ns four full by simp
qed

text \<open>
  Four cards of one rank and two of another (the specification's example for Four of a
  Kind) are reported as Four of a Kind, which is checked before Full House.
\<close>

lemma quads_with_pair_is_four_of_a_kind:
  "evaluate_hand [Card Clubs Two, Card Diamonds Two]
       [Card Hearts Two, Card Spades Two, Card Clubs Nine, Card Diamonds Nine,
        Card Clubs Five]
     = (HAND_RANKINGS Four_of_a_Kind,
        [Card Clubs Two, Card Diamonds Two, Card Hearts Two, Card Spades Two,
         Card Clubs Nine])"
  by code_simp

text \<open>
  C3. Hole 2 of clubs, 2 of diamonds and board 2 of hearts, 9 of spades, 9 of clubs, 9 of
  diamonds, 5 of clubs: rank 2 appears three times and rank 9 three times (so at least
  twice), no rank four times; the hand qualifies as three of a kind and as full house.
  \<^verbatim>\<open>has_full_house\<close> looks for its pair with \<^verbatim>\<open>get_pairs\<close>, which accepts a count of
  exactly two only, finds none, and \<^verbatim>\<open>evaluate_hand\<close> reports Three of a Kind (5), not
  Full House (8).
\<close>

theorem two_trips_reported_three_of_a_kind:
  "count_list (map rank ([Card Clubs Two, Card Diamonds Two]
        @ [Card Hearts Two, Card Spades Nine, Card Clubs Nine, Card Diamonds Nine,
           Card Clubs Five])) Two = 3
   \<and> count_list (map rank ([Card Clubs Two, Card Diamonds Two]
        @ [Card Hearts Two, Card Spades Nine, Card Clubs Nine, Card Diamonds Nine,
           Card Clubs Five])) Nine = 3
   \<and> fst (has_full_house ([Card Clubs Two, Card Diamonds Two]
        @ [Card Hearts Two, Card Spades Nine, Card Clubs Nine, Card Diamonds Nine,
           Card Clubs Five])) = False
   \<and> evaluate_hand [Card Clubs Two, Card Diamonds Two]
       [Card Hearts Two, Card Spades Nine, Card Clubs Nine, Card Diamonds Nine,
        Card Clubs Five]
     = (HAND_RANKINGS Three_of_a_Kind, [Card Clubs Two, Card Diamonds Two, Card Hearts Two])"
  by code_simp

section \<open>Showdown\<close>

text \<open>
  C4. Two players with a pair of kings each on the board 2, 5, 7, 9, J: both results have
  the category Pair (3) and the same tie-break key (the empty list that
  \<^verbatim>\<open>best_five_cards\<close> returns for two cards), yet \<^verbatim>\<open>show_results\<close> returns only the first
  of them: it compares the whole result, cards included, with \<^verbatim>\<open>max_rank\<close>.
\<close>

theorem tied_players_first_only:
  "evaluate_hand [Card Spades King, Card Hearts King]
       [Card Hearts Two, Card Diamonds Five, Card Clubs Seven, Card Spades Nine,
        Card Hearts Jack]
     = (HAND_RANKINGS Pair_Hand, [Card Spades King, Card Hearts King])
   \<and> evaluate_hand [Card Diamonds King, Card Clubs King]
       [Card Hearts Two, Card Diamonds Five, Card Clubs Seven, Card Spades Nine,
        Card Hearts Jack]
     = (HAND_RANKINGS Pair_Hand, [Card Diamonds King, Card Clubs King])
   \<and> best_five_cards [Card Spades King, Card Hearts King] = PyList []
   \<and> best_five_cards [Card Diamonds King, Card Clubs King] = PyList []
   \<and> map_sum id potential_winners
       (show_results
          [(Player_init 0 100)\<lparr>hand := [Card Spades King, Card Hearts King]\<rparr>,
           (Player_init 1 100)\<lparr>hand := [Card Diamonds King, Card Clubs King]\<rparr>]
          [Card Hearts Two, Card Diamonds Five, Card Clubs Seven, Card Spades Nine,
           Card Hearts Jack])
     = Inr [0]"
  by code_simp

text \<open>
  When the pair is on the board, the two results are equal as pairs, cards included, and
  both players are returned.
\<close>

lemma board_pair_tie_returns_both:
  "map_sum id potential_winners
       (show_results
          [(Player_init 0 100)\<lparr>hand := [Card Spades Ace, Card Diamonds King]\<rparr>,
           (Player_init 1 100)\<lparr>hand := [Card Hearts Ace, Card Clubs King]\<rparr>]
          [Card Clubs Nine, Card Diamonds Nine, Card Hearts Two, Card Spades Five,
           Card Diamonds Seven])
     = Inr [0, 1]"
  by code_simp

section \<open>The betting round and the hand\<close>

lemma strip_lower_call: "strip (lower '' Call '') = ''call''"
  by code_simp

text \<open>
  C7. When the acting seat answers \<^verbatim>\<open>call\<close>, no error is raised and the seat commits
  chips equal to the current max bet (not reduced by what the seat has already
  committed): \<^verbatim>\<open>current_bet\<close> becomes the max bet and the stack falls by it. When the max
  bet exceeds the stack the seat goes all-in: \<^verbatim>\<open>current_bet\<close> becomes the whole stack and
  the stack becomes zero. The pot and the max bet are then updated from the new
  \<^verbatim>\<open>current_bet\<close>, and the seat counts as active.
\<close>

theorem call_commits_current_max_bet:
  assumes "strip (lower l) = ''call''"
  shows "seat_action p gs (l # rest)
           = Inr (snd (call (current_max_bet gs) p),
                  update_max_bet (current_bet (snd (call (current_max_bet gs) p)))
                    (update_pot (current_bet (snd (call (current_max_bet gs) p))) gs),
                  rest, True)
         \<and> fst (call (current_max_bet gs) p) = Inr ()
         \<and> (current_max_bet gs \<le> chips p \<longrightarrow>
              snd (call (current_max_bet gs) p)
                = p\<lparr>current_bet := current_max_bet gs, chips := chips p - current_max_bet gs\<rparr>)
         \<and> (current_max_bet gs > chips p \<longrightarrow>
              snd (call (current_max_bet gs) p) = p\<lparr>current_bet := chips p, chips := 0\<rparr>)"
proof -
  have "fst (call (current_max_bet gs) p) = Inr ()"
    by (simp add: call_def all_in_def bet_def)
  then obtain p' where c: "call (current_max_bet gs) p = (Inr (), p')"
    by (cases "call (current_max_bet gs) p") simp
  have "seat_action p gs (l # rest)
           = Inr (p', update_max_bet (current_bet p') (update_pot (current_bet p') gs),
                  rest, True)"
    unfolding seat_action_def using assms
    by (simp add: c and_then_def VALID_ACTIONS_def)
  moreover have "p' = snd (call (current_max_bet gs) p)" by (simp add: c)
  ultimately show ?thesis by (simp add: call_def all_in_def bet_def)
qed

theorem call_commits_current_max_bet_witness:
  "strip (lower '' Call '') = ''call''
   \<and> seat_action ((Player_init 2 95)\<lparr>current_bet := 5\<rparr>)
        ((GameState_init 5)\<lparr>current_max_bet := 20\<rparr>) ['' Call '', ''fold'']
       = Inr ((Player_init 2 95)\<lparr>current_bet := 20, chips := 75\<rparr>,
              (GameState_init 5)\<lparr>current_max_bet := 20, pot_size := 20\<rparr>, [''fold''], True)
   \<and> seat_action ((Player_init 3 8)\<lparr>current_bet := 5\<rparr>)
        ((GameState_init 5)\<lparr>current_max_bet := 20\<rparr>) ['' Call '', ''fold'']
       = Inr ((Player_init 3 8)\<lparr>current_bet := 8, chips := 0\<rparr>,
              (GameState_init 5)\<lparr>current_max_bet := 20, pot_size := 8\<rparr>, [''fold''], True)"
  using call_commits_current_max_bet [OF strip_lower_call,
          of "(Player_init 2 95)\<lparr>current_bet := 5\<rparr>"
             "(GameState_init 5)\<lparr>current_max_bet := 20\<rparr>" "[''fold'']"]
        call_commits_current_max_bet [OF strip_lower_call,
          of "(Player_init 3 8)\<lparr>current_bet := 5\<rparr>"
             "(GameState_init 5)\<lparr>current_max_bet := 20\<rparr>" "[''fold'']"]
  by (simp add: strip_lower_call Player_init_def GameState_init_def update_max_bet_def
        update_pot_def)

text \<open>
  The claim as written subtracts what the seat has already committed. A seat with 95
  chips that has committed 5 and faces a max bet of 20 commits 20 by calling, not 15.
\<close>

theorem call_ignores_committed_bet:
  "seat_action ((Player_init 2 95)\<lparr>current_bet := 5\<rparr>)
       ((GameState_init 5)\<lparr>current_max_bet := 20\<rparr>) [''call'']
     = Inr ((Player_init 2 95)\<lparr>current_bet := 20, chips := 75\<rparr>,
            (GameState_init 5)\<lparr>current_max_bet := 20, pot_size := 20\<rparr>, [], True)
   \<and> chips ((Player_init 2 95)\<lparr>current_bet := 5\<rparr>)
       - chips ((Player_init 2 95)\<lparr>current_bet := 20, chips := 75\<rparr>)
     \<noteq> current_max_bet ((GameState_init 5)\<lparr>current_max_bet := 20\<rparr>)
       - current_bet ((Player_init 2 95)\<lparr>current_bet := 5\<rparr>)"
  by code_simp





















lemma Poker_init_five_seats: "Poker_init 5 Deck_init = Inr five_seats"
  by (simp add: Poker_init_def five_seats_def upt_rec eval_nat_numeral)




end
